theory Spec2Isabelle
  imports Complex_Main "HOL-Library.Sublist"
begin

section \<open>Values of the request and response bodies\<close>

text \<open>
  The helpers of \<^verbatim>\<open>src/api/utils.py\<close> receive the parsed JSON of a request and build the
  JSON of a response. A JSON value is \<^verbatim>\<open>None\<close>, a \<^verbatim>\<open>bool\<close>, an \<^verbatim>\<open>int\<close>, a
  \<^verbatim>\<open>float\<close> (a finite one is a rational), a \<^verbatim>\<open>str\<close>, a \<^verbatim>\<open>list\<close> or a \<^verbatim>\<open>dict\<close> with
  string keys (an association list with distinct keys). A \<^verbatim>\<open>str\<close> is a \<open>string\<close>, one
  \<open>char\<close> for each code point, so the model covers the code points up to U+00FF.
\<close>

datatype json =
    JNone
  | JBool bool
  | JInt int
  | JFloat rat
  | JStr string
  | JList "json list"
  | JDict "(string \<times> json) list"

text \<open>
  Python's \<^verbatim>\<open>==\<close> on these values. \<^verbatim>\<open>bool\<close> is a subclass of \<^verbatim>\<open>int\<close> and the numeric
  types compare by value (\<^verbatim>\<open>True == 1\<close>, \<^verbatim>\<open>0 == 0.0\<close>); lists compare element by element,
  dicts key by key; values of unrelated types are unequal.
\<close>

fun num_of :: "json \<Rightarrow> rat option" where
  "num_of (JBool b) = Some (if b then 1 else 0)"
| "num_of (JInt i) = Some (of_int i)"
| "num_of (JFloat r) = Some r"
| "num_of _ = None"

fun py_eq :: "json \<Rightarrow> json \<Rightarrow> bool" where
  "py_eq JNone y = (y = JNone)"
| "py_eq (JStr s) y = (y = JStr s)"
| "py_eq (JList xs) y = (case y of JList ys \<Rightarrow> list_all2 py_eq xs ys | _ \<Rightarrow> False)"
| "py_eq (JDict kvs) y =
     (case y of
        JDict kws \<Rightarrow>
          length kvs = length kws \<and>
          list_all (\<lambda>kv. list_ex (\<lambda>kw. fst kv = fst kw \<and> py_eq (snd kv) (snd kw)) kws) kvs
      | _ \<Rightarrow> False)"
| "py_eq x y = (num_of y \<noteq> None \<and> num_of x = num_of y)"

text \<open>\<^verbatim>\<open>x in (a, b, c)\<close>: some element of the tuple is equal to \<^verbatim>\<open>x\<close>.\<close>

definition py_in :: "json \<Rightarrow> json list \<Rightarrow> bool" where
  "py_in x ys = list_ex (\<lambda>y. py_eq x y) ys"

section \<open>Validation utilities\<close>

text \<open>
  The exceptions of the model: the \<^verbatim>\<open>ValueError\<close> of the validator with its message, the
  lookup and attribute errors of reading a reply, the \<^verbatim>\<open>UnicodeEncodeError\<close> of
  \<^verbatim>\<open>str.encode\<close>, and \<open>ExternalError\<close> for whatever a collaborator (the language model,
  the HTTP client) raises, with the text of \<^verbatim>\<open>str(e)\<close>. All of them are subclasses of
  \<^verbatim>\<open>Exception\<close>.
\<close>

datatype exn =
    ValueError string
  | KeyError string
  | IndexError
  | TypeError
  | AttributeError
  | UnicodeEncodeError
  | ExternalError string

text \<open>
  \<^verbatim>\<open>
  def validate_required_fields(data, required_fields):
      for field in required_fields:
          if field not in data or data[field] in (None, '', []):
              raise ValueError(f'Missing required field: {field}')
  \<close>
  The test of the loop body is \<open>field_missing\<close>; the loop is the recursion over the list of
  names, the \<^verbatim>\<open>raise\<close> is the value \<open>Inl\<close> and falling off the end is \<open>Inr ()\<close>.
\<close>

definition empty_values :: "json list" where
  "empty_values = [JNone, JStr [], JList []]"

definition field_missing :: "(string \<rightharpoonup> json) \<Rightarrow> string \<Rightarrow> bool" where
  "field_missing data field =
     (case data field of None \<Rightarrow> True | Some v \<Rightarrow> py_in v empty_values)"

fun validate_required_fields :: "(string \<rightharpoonup> json) \<Rightarrow> string list \<Rightarrow> exn + unit" where
  "validate_required_fields data [] = Inr ()"
| "validate_required_fields data (field # required_fields) =
     (if field_missing data field
      then Inl (ValueError (''Missing required field: '' @ field))
      else validate_required_fields data required_fields)"

section \<open>Response formatting\<close>

text \<open>
  \<^verbatim>\<open>jsonify(payload), status\<close>: the pair of a Flask response and a status code. The response
  is modelled by the JSON object it carries, a map from keys to values.
\<close>

record flask_response =
  body :: "string \<rightharpoonup> json"
  status :: int

definition jsonify :: "(string \<rightharpoonup> json) \<Rightarrow> (string \<rightharpoonup> json)" where
  "jsonify payload = payload"

text \<open>
  \<^verbatim>\<open>
  def success_response(data=None, status=200):
      payload = {'success': True}
      if data:
          payload.update(data)
      return jsonify(payload), status
  \<close>
  \<^verbatim>\<open>data\<close> is \<^verbatim>\<open>None\<close> or a dict; \<^verbatim>\<open>if data\<close> is false for \<^verbatim>\<open>None\<close> and for the empty
  dict. \<^verbatim>\<open>payload.update(data)\<close> is the override \<open>payload ++ data\<close> of maps. The default
  arguments are passed explicitly.
\<close>

definition success_response :: "(string \<rightharpoonup> json) option \<Rightarrow> int \<Rightarrow> flask_response" where
  "success_response data st =
     (let payload = [''success'' \<mapsto> JBool True];
          payload' = (case data of
                        None \<Rightarrow> payload
                      | Some d \<Rightarrow> if d \<noteq> Map.empty then payload ++ d else payload)
      in \<lparr>body = jsonify payload', status = st\<rparr>)"

text \<open>
  \<^verbatim>\<open>
  def error_response(message, status=400):
      return jsonify({'success': False, 'error': message}), status
  \<close>
\<close>

definition error_response :: "string \<Rightarrow> int \<Rightarrow> flask_response" where
  "error_response message st =
     \<lparr>body = jsonify [''success'' \<mapsto> JBool False, ''error'' \<mapsto> JStr message], status = st\<rparr>"

section \<open>Regular expressions of the program\<close>

text \<open>
  The three patterns of the program are sequences of the items below, or alternatives of
  such sequences: \<^verbatim>\<open>^\<close>, \<^verbatim>\<open>$\<close>, \<^verbatim>\<open>\b\<close>, a literal character, a character class and a
  character class under \<^verbatim>\<open>+\<close>. The classes are predicates on characters.
\<close>

datatype item =
    Bol
  | Eol
  | WordB
  | Lit char
  | Cls "char \<Rightarrow> bool"
  | Plus1 "char \<Rightarrow> bool"

text \<open>
  \<^verbatim>\<open>\w\<close> on a \<^verbatim>\<open>str\<close> pattern is Unicode-aware: the alphanumeric code points and the
  underscore. Below U+0100 these are the ASCII letters and digits, the underscore, and the
  Latin-1 letters and numeric signs listed here.
\<close>

definition word_char :: "char \<Rightarrow> bool" where
  "word_char c =
     (let n = (of_char c :: nat)
      in (48 \<le> n \<and> n \<le> 57) \<or> (65 \<le> n \<and> n \<le> 90) \<or> n = 95 \<or> (97 \<le> n \<and> n \<le> 122) \<or>
         n \<in> {170, 178, 179, 181, 185, 186, 188, 189, 190} \<or>
         (192 \<le> n \<and> n \<le> 214) \<or> (216 \<le> n \<and> n \<le> 246) \<or> 248 \<le> n)"

definition upper_char :: "char \<Rightarrow> bool" where
  "upper_char c = (let n = (of_char c :: nat) in 65 \<le> n \<and> n \<le> 90)"

definition lower_char :: "char \<Rightarrow> bool" where
  "lower_char c = (let n = (of_char c :: nat) in 97 \<le> n \<and> n \<le> 122)"

definition letter_char :: "char \<Rightarrow> bool" where
  "letter_char c = (lower_char c \<or> upper_char c)"

definition newline :: char where
  "newline = CHR 0x0A"

fun word_before :: "char option \<Rightarrow> bool" where
  "word_before None = False"
| "word_before (Some c) = word_char c"

fun word_after :: "string \<Rightarrow> bool" where
  "word_after [] = False"
| "word_after (c # cs) = word_char c"

text \<open>
  \<open>rmatch its prev s\<close> matches the sequence \<open>its\<close> at the position whose left neighbour is
  \<open>prev\<close> (\<open>None\<close> at the start of the string) and whose rest is \<open>s\<close>. It returns the
  number of characters of the first match in the order in which the backtracking matcher
  of \<^verbatim>\<open>re\<close> tries them: \<^verbatim>\<open>+\<close> is greedy, so the longer repetition comes first. Without
  flags \<^verbatim>\<open>^\<close> matches at the start of the string only, and \<^verbatim>\<open>$\<close> matches at the end of the
  string and just before a newline that ends the string. \<^verbatim>\<open>\b\<close> matches where exactly one
  of the two neighbours is a word character.
\<close>

fun rmatch :: "item list \<Rightarrow> char option \<Rightarrow> string \<Rightarrow> nat option" where
  "rmatch [] prev s = Some 0"
| "rmatch (Bol # its) prev s = (if prev = None then rmatch its prev s else None)"
| "rmatch (Eol # its) prev s = (if s = [] \<or> s = [newline] then rmatch its prev s else None)"
| "rmatch (WordB # its) prev s =
     (if word_before prev \<noteq> word_after s then rmatch its prev s else None)"
| "rmatch (Lit a # its) prev [] = None"
| "rmatch (Lit a # its) prev (c # cs) =
     (if c = a then map_option Suc (rmatch its (Some c) cs) else None)"
| "rmatch (Cls p # its) prev [] = None"
| "rmatch (Cls p # its) prev (c # cs) =
     (if p c then map_option Suc (rmatch its (Some c) cs) else None)"
| "rmatch (Plus1 p # its) prev [] = None"
| "rmatch (Plus1 p # its) prev (c # cs) =
     (if p c
      then (case rmatch (Plus1 p # its) (Some c) cs of
              Some n \<Rightarrow> Some (Suc n)
            | None \<Rightarrow> map_option Suc (rmatch its (Some c) cs))
      else None)"

text \<open>Whether the sequence matches at all at that position.\<close>

definition matches :: "item list \<Rightarrow> char option \<Rightarrow> string \<Rightarrow> bool" where
  "matches its prev s = (rmatch its prev s \<noteq> None)"

text \<open>A pattern is a list of alternatives (\<^verbatim>\<open>A|B\<close>), tried from left to right.\<close>

fun amatch :: "item list list \<Rightarrow> char option \<Rightarrow> string \<Rightarrow> nat option" where
  "amatch [] prev s = None"
| "amatch (a # alts) prev s =
     (case rmatch a prev s of Some n \<Rightarrow> Some n | None \<Rightarrow> amatch alts prev s)"

text \<open>\<^verbatim>\<open>re.match(pattern, s) is not None\<close>: a match at the start of the string.\<close>

definition re_match :: "item list list \<Rightarrow> string \<Rightarrow> bool" where
  "re_match alts s = (amatch alts None s \<noteq> None)"

text \<open>\<^verbatim>\<open>pattern.search(s)\<close> as a truth value: a match at some position of the string.\<close>

fun search_from :: "item list list \<Rightarrow> char option \<Rightarrow> string \<Rightarrow> bool" where
  "search_from alts prev [] = (amatch alts prev [] \<noteq> None)"
| "search_from alts prev (c # cs) =
     (amatch alts prev (c # cs) \<noteq> None \<or> search_from alts (Some c) cs)"

definition re_search :: "item list list \<Rightarrow> string \<Rightarrow> bool" where
  "re_search alts s = search_from alts None s"

text \<open>
  \<^verbatim>\<open>re.findall(pattern, s)\<close> for a pattern without groups: the matched texts, scanning from
  left to right and resuming at the end of each match. After a failed attempt, and after
  an empty match, the scan moves on by one character.
\<close>

function findall_from :: "item list list \<Rightarrow> char option \<Rightarrow> string \<Rightarrow> string list" where
  "findall_from alts prev [] = (case amatch alts prev [] of None \<Rightarrow> [] | Some n \<Rightarrow> [[]])"
| "findall_from alts prev (c # cs) =
     (case amatch alts prev (c # cs) of
        None \<Rightarrow> findall_from alts (Some c) cs
      | Some n \<Rightarrow>
          if n = 0 then [] # findall_from alts (Some c) cs
          else take n (c # cs) #
               findall_from alts (Some (last (take n (c # cs)))) (drop n (c # cs)))"
  by pat_completeness auto
termination
  by (relation "measure (\<lambda>(alts, prev, s). length s)") auto

definition findall :: "item list list \<Rightarrow> string \<Rightarrow> string list" where
  "findall alts s = findall_from alts None s"

text \<open>
  \<^verbatim>\<open>
  def validate_email(email):
      pattern = r'^[\w\.-]+@[\w\.-]+\.\w+$'
      return re.match(pattern, email) is not None
  \<close>
\<close>

definition word_dot_hyphen :: "char \<Rightarrow> bool" where
  "word_dot_hyphen c = (word_char c \<or> c = CHR ''.'' \<or> c = CHR ''-'')"

definition email_pattern :: "item list list" where
  "email_pattern =
     [[Bol, Plus1 word_dot_hyphen, Lit CHR ''@'', Plus1 word_dot_hyphen, Lit CHR ''.'',
       Plus1 word_char, Eol]]"

definition validate_email :: "string \<Rightarrow> bool" where
  "validate_email email = re_match email_pattern email"

text \<open>
  The shape the specification gives for a valid address, in its words: one or more
  word, dot or hyphen characters, an at sign, one or more word, dot or hyphen characters,
  a dot, and one or more word characters.
\<close>

definition simple_email_shape :: "string \<Rightarrow> bool" where
  "simple_email_shape s =
     (\<exists>u v w. s = u @ CHR ''@'' # v @ CHR ''.'' # w \<and>
        u \<noteq> [] \<and> list_all word_dot_hyphen u \<and>
        v \<noteq> [] \<and> list_all word_dot_hyphen v \<and>
        w \<noteq> [] \<and> list_all word_char w)"

section \<open>Services\<close>

text \<open>
  A service method returns either a plain dict or the pair that \<open>error_response\<close> builds.
  \<^verbatim>\<open>current_app.logger.error(f"...: {str(e)}")\<close> appends to the log; an entry keeps the
  prefix of the message and the exception whose text follows it.
\<close>

datatype svc_result = Returned json | ErrorResponse flask_response

type_synonym log = "(string \<times> exn) list"

text \<open>
  Reading the reply of the language model, \<^verbatim>\<open>response["choices"][0]["message"]["content"].strip()\<close>:
  a subscript with a string key, a subscript with the index \<^verbatim>\<open>0\<close>, and \<^verbatim>\<open>str.strip\<close>,
  each with the exception it raises on a value of the wrong shape.
\<close>

fun getitem_key :: "json \<Rightarrow> string \<Rightarrow> exn + json" where
  "getitem_key (JDict kvs) k = (case map_of kvs k of None \<Rightarrow> Inl (KeyError k) | Some v \<Rightarrow> Inr v)"
| "getitem_key _ k = Inl TypeError"

fun getitem_0 :: "json \<Rightarrow> exn + json" where
  "getitem_0 (JList xs) = (case xs of [] \<Rightarrow> Inl IndexError | x # _ \<Rightarrow> Inr x)"
| "getitem_0 (JStr s) = (case s of [] \<Rightarrow> Inl IndexError | c # _ \<Rightarrow> Inr (JStr [c]))"
| "getitem_0 (JDict kvs) = Inl (KeyError ''0'')"
| "getitem_0 _ = Inl TypeError"

definition space_char :: "char \<Rightarrow> bool" where
  "space_char c =
     (let n = (of_char c :: nat)
      in (9 \<le> n \<and> n \<le> 13) \<or> (28 \<le> n \<and> n \<le> 32) \<or> n = 133 \<or> n = 160)"

definition strip :: "string \<Rightarrow> string" where
  "strip s = rev (dropWhile space_char (rev (dropWhile space_char s)))"

fun str_strip :: "json \<Rightarrow> exn + string" where
  "str_strip (JStr s) = Inr (strip s)"
| "str_strip _ = Inl AttributeError"

definition bind_exn :: "exn + 'a \<Rightarrow> ('a \<Rightarrow> exn + 'b) \<Rightarrow> exn + 'b" where
  "bind_exn m f = (case m of Inl e \<Rightarrow> Inl e | Inr x \<Rightarrow> f x)"

definition reply_content :: "json \<Rightarrow> exn + string" where
  "reply_content response =
     bind_exn (getitem_key response ''choices'') (\<lambda>choices.
     bind_exn (getitem_0 choices) (\<lambda>choice.
     bind_exn (getitem_key choice ''message'') (\<lambda>message.
     bind_exn (getitem_key message ''content'') str_strip)))"

text \<open>
  The call \<^verbatim>\<open>openai.ChatCompletion.create(model=..., messages=[{"role": "user", "content":
  prompt}], max_tokens=..., temperature=...)\<close> is a parameter of the model: a function from
  the request to the reply or to the exception the client raises (a timeout is one of
  them). \<^verbatim>\<open>str\<close> of a dict inside an f-string is a parameter too.
\<close>

record chat_request =
  model :: string
  messages :: json
  max_tokens :: int
  temperature :: rat

type_synonym llm = "chat_request \<Rightarrow> exn + json"

definition user_message :: "string \<Rightarrow> json" where
  "user_message prompt = JList [JDict [(''role'', JStr ''user''), (''content'', JStr prompt)]]"

text \<open>
  \<^verbatim>\<open>
  def smart_fill(type, input_data):
      try:
          prompt = (f"Generate a concise, achievement-focused {type} description "
                    f"based on the following input:\n\n{input_data}\n\n"
                    "Output one professional sentence suitable for a resume.")
          response = openai.ChatCompletion.create(model="gpt-3.5-turbo",
              messages=[{"role": "user", "content": prompt}], max_tokens=150, temperature=0.7)
          description = response["choices"][0]["message"]["content"].strip()
          return {"generated_description": description}
      except Exception as e:
          current_app.logger.error(f"Error in smart_fill: {str(e)}")
          return error_response("Failed to generate description", 500)
  \<close>
\<close>

definition smart_fill_prompt :: "(json \<Rightarrow> string) \<Rightarrow> string \<Rightarrow> json \<Rightarrow> string" where
  "smart_fill_prompt py_str type input_data =
     ''Generate a concise, achievement-focused '' @ type @ '' description '' @
     ''based on the following input:'' @ [newline, newline] @ py_str input_data @
     [newline, newline] @ ''Output one professional sentence suitable for a resume.''"

definition smart_fill_request :: "(json \<Rightarrow> string) \<Rightarrow> string \<Rightarrow> json \<Rightarrow> chat_request" where
  "smart_fill_request py_str type input_data =
     \<lparr>model = ''gpt-3.5-turbo'',
      messages = user_message (smart_fill_prompt py_str type input_data),
      max_tokens = 150, temperature = 7 / 10\<rparr>"

definition smart_fill ::
  "(json \<Rightarrow> string) \<Rightarrow> llm \<Rightarrow> string \<Rightarrow> json \<Rightarrow> log \<Rightarrow> svc_result \<times> log" where
  "smart_fill py_str create type input_data lg =
     (case bind_exn (create (smart_fill_request py_str type input_data)) reply_content of
        Inr description \<Rightarrow> (Returned (JDict [(''generated_description'', JStr description)]), lg)
      | Inl e \<Rightarrow>
          (ErrorResponse (error_response ''Failed to generate description'' 500),
           lg @ [(''Error in smart_fill: '', e)]))"

text \<open>
  \<^verbatim>\<open>
  def generate_cover_letter(user_data, job_data, resume_data):
      try:
          prompt = (f"Write a professional cover letter draft based on the following data:\n\n"
                    f"User Info:\n{user_data}\n\n"
                    f"Job Posting:\n{job_data}\n\n"
                    f"Resume Summary:\n{resume_data}\n\n"
                    "The tone should be formal but engaging, suitable for applying to a top company.")
          response = openai.ChatCompletion.create(model="gpt-3.5-turbo",
              messages=[{"role": "user", "content": prompt}], max_tokens=500, temperature=0.75)
          cover_letter = response["choices"][0]["message"]["content"].strip()
          return {"cover_letter_draft": cover_letter}
      except Exception as e:
          current_app.logger.error(f"Error generating cover letter: {str(e)}")
          return error_response("Failed to generate cover letter", 500)
  \<close>
\<close>

definition cover_letter_prompt :: "(json \<Rightarrow> string) \<Rightarrow> json \<Rightarrow> json \<Rightarrow> json \<Rightarrow> string" where
  "cover_letter_prompt py_str user_data job_data resume_data =
     ''Write a professional cover letter draft based on the following data:'' @
     [newline, newline] @
     ''User Info:'' @ [newline] @ py_str user_data @ [newline, newline] @
     ''Job Posting:'' @ [newline] @ py_str job_data @ [newline, newline] @
     ''Resume Summary:'' @ [newline] @ py_str resume_data @ [newline, newline] @
     ''The tone should be formal but engaging, suitable for applying to a top company.''"

definition cover_letter_request ::
  "(json \<Rightarrow> string) \<Rightarrow> json \<Rightarrow> json \<Rightarrow> json \<Rightarrow> chat_request" where
  "cover_letter_request py_str user_data job_data resume_data =
     \<lparr>model = ''gpt-3.5-turbo'',
      messages = user_message (cover_letter_prompt py_str user_data job_data resume_data),
      max_tokens = 500, temperature = 3 / 4\<rparr>"

definition generate_cover_letter ::
  "(json \<Rightarrow> string) \<Rightarrow> llm \<Rightarrow> json \<Rightarrow> json \<Rightarrow> json \<Rightarrow> log \<Rightarrow> svc_result \<times> log" where
  "generate_cover_letter py_str create user_data job_data resume_data lg =
     (case bind_exn (create (cover_letter_request py_str user_data job_data resume_data))
             reply_content of
        Inr cover_letter \<Rightarrow> (Returned (JDict [(''cover_letter_draft'', JStr cover_letter)]), lg)
      | Inl e \<Rightarrow>
          (ErrorResponse (error_response ''Failed to generate cover letter'' 500),
           lg @ [(''Error generating cover letter: '', e)]))"

subsection \<open>Scraper\<close>

text \<open>
  \<^verbatim>\<open>requests.get(url, timeout=10)\<close> followed by \<^verbatim>\<open>BeautifulSoup(resp.text, "html.parser")\<close> is
  a parameter: a function from the URL to the parsed page or to the exception raised. Of
  the parsed page the program uses four things: the first \<^verbatim>\<open>h1\<close> element, the first
  \<^verbatim>\<open>title\<close> element, its text nodes in document order (among which \<^verbatim>\<open>find(text=...)\<close>
  looks for the first one the pattern finds), and \<^verbatim>\<open>get_text(separator=" ")\<close>. Of an
  element it uses \<^verbatim>\<open>get_text(strip=True)\<close>. An element is true in a condition, whatever
  its contents; a text node is a \<^verbatim>\<open>str\<close>, false when empty.
\<close>

record tag =
  get_text_strip :: string

record soup =
  find_h1 :: "tag option"
  find_title :: "tag option"
  strings :: "string list"
  get_text :: string

type_synonym fetcher = "string \<Rightarrow> exn + soup"

text \<open>Truth value of an optional \<^verbatim>\<open>str\<close> argument: \<^verbatim>\<open>None\<close> and \<^verbatim>\<open>""\<close> are false.\<close>

fun truthy :: "string option \<Rightarrow> bool" where
  "truthy None = False"
| "truthy (Some s) = (s \<noteq> [])"

definition keyword_pattern :: "item list list" where
  "keyword_pattern = [[WordB, Cls upper_char, Plus1 letter_char, WordB]]"

text \<open>
  \<^verbatim>\<open>
  def extract_keywords(url=None, text=None):
      try:
          if url and not text:
              resp = requests.get(url, timeout=10)
              soup = BeautifulSoup(resp.text, "html.parser")
              text = soup.get_text(separator=" ")
          if not text:
              return error_response("No content provided for keyword extraction", 400)
          words = re.findall(r'\b[A-Z][a-zA-Z]+\b', text)
          keywords = list(set(w for w in words if len(w) > 2))[:20]
          return {"keywords": keywords}
      except Exception as e:
          current_app.logger.error(f"Error extracting keywords: {str(e)}")
          return error_response("Failed to extract keywords", 500)
  \<close>
  The order in which \<^verbatim>\<open>list(set(...))\<close> enumerates a set of strings is not fixed by the
  language; \<open>list_set\<close> is the parameter that gives, for the sequence fed to \<^verbatim>\<open>set\<close>, the
  list that comes out. \<open>set_enumeration\<close> is what every such function satisfies: each
  element once, no other element.
\<close>

definition set_enumeration :: "(string list \<Rightarrow> string list) \<Rightarrow> bool" where
  "set_enumeration list_set = (\<forall>ws. distinct (list_set ws) \<and> set (list_set ws) = set ws)"

definition fetched_text :: "fetcher \<Rightarrow> string option \<Rightarrow> string option \<Rightarrow> exn + string option" where
  "fetched_text fetch url text =
     (case url of
        Some u \<Rightarrow>
          if u \<noteq> [] \<and> \<not> truthy text
          then (case fetch u of Inl e \<Rightarrow> Inl e | Inr page \<Rightarrow> Inr (Some (get_text page)))
          else Inr text
      | None \<Rightarrow> Inr text)"

definition keywords_of :: "(string list \<Rightarrow> string list) \<Rightarrow> string \<Rightarrow> string list" where
  "keywords_of list_set text =
     (let words = findall keyword_pattern text
      in take 20 (list_set (filter (\<lambda>w. length w > 2) words)))"

definition extract_keywords ::
  "(string list \<Rightarrow> string list) \<Rightarrow> fetcher \<Rightarrow> string option \<Rightarrow> string option \<Rightarrow> log
     \<Rightarrow> svc_result \<times> log" where
  "extract_keywords list_set fetch url text lg =
     (case fetched_text fetch url text of
        Inl e \<Rightarrow>
          (ErrorResponse (error_response ''Failed to extract keywords'' 500),
           lg @ [(''Error extracting keywords: '', e)])
      | Inr None \<Rightarrow>
          (ErrorResponse (error_response ''No content provided for keyword extraction'' 400), lg)
      | Inr (Some t) \<Rightarrow>
          if t = []
          then (ErrorResponse
                  (error_response ''No content provided for keyword extraction'' 400), lg)
          else (Returned (JDict [(''keywords'', JList (map JStr (keywords_of list_set t)))]), lg))"

text \<open>
  \<^verbatim>\<open>
  def scrape_job_posting(url):
      try:
          resp = requests.get(url, timeout=10)
          soup = BeautifulSoup(resp.text, "html.parser")
          title = soup.find("h1") or soup.find("title")
          company = soup.find(text=re.compile(r"Company|Employer", re.I))
          description = soup.get_text(separator=" ")
          return {
              "title": title.get_text(strip=True) if title else "Untitled",
              "company": company.strip() if company else "Unknown Company",
              "description": description[:1500],
          }
      except Exception as e:
          current_app.logger.error(f"Error scraping job posting: {str(e)}")
          return error_response("Failed to scrape job posting", 500)
  \<close>
  Under \<^verbatim>\<open>re.I\<close> a letter of the pattern matches its two cases.
\<close>

definition either_case :: "char \<Rightarrow> char \<Rightarrow> item" where
  "either_case lo up = Cls (\<lambda>c. c = lo \<or> c = up)"

definition company_pattern :: "item list list" where
  "company_pattern =
     [[either_case CHR ''c'' CHR ''C'', either_case CHR ''o'' CHR ''O'',
       either_case CHR ''m'' CHR ''M'', either_case CHR ''p'' CHR ''P'',
       either_case CHR ''a'' CHR ''A'', either_case CHR ''n'' CHR ''N'',
       either_case CHR ''y'' CHR ''Y''],
      [either_case CHR ''e'' CHR ''E'', either_case CHR ''m'' CHR ''M'',
       either_case CHR ''p'' CHR ''P'', either_case CHR ''l'' CHR ''L'',
       either_case CHR ''o'' CHR ''O'', either_case CHR ''y'' CHR ''Y'',
       either_case CHR ''e'' CHR ''E'', either_case CHR ''r'' CHR ''R'']]"

definition find_company :: "soup \<Rightarrow> string option" where
  "find_company page = find (\<lambda>s. re_search company_pattern s) (strings page)"

definition find_heading :: "soup \<Rightarrow> tag option" where
  "find_heading page = (case find_h1 page of Some t \<Rightarrow> Some t | None \<Rightarrow> find_title page)"

definition scrape_job_posting :: "fetcher \<Rightarrow> string \<Rightarrow> log \<Rightarrow> svc_result \<times> log" where
  "scrape_job_posting fetch url lg =
     (case fetch url of
        Inl e \<Rightarrow>
          (ErrorResponse (error_response ''Failed to scrape job posting'' 500),
           lg @ [(''Error scraping job posting: '', e)])
      | Inr page \<Rightarrow>
          (let title = find_heading page;
               company = find_company page;
               description = get_text page
           in (Returned (JDict
                 [(''title'', JStr (case title of
                                      Some t \<Rightarrow> get_text_strip t
                                    | None \<Rightarrow> ''Untitled'')),
                  (''company'', JStr (if truthy company
                                      then strip (case company of Some c \<Rightarrow> c | None \<Rightarrow> [])
                                      else ''Unknown Company'')),
                  (''description'', JStr (take 1500 description))]), lg)))"

section \<open>Library bullets and their overrides in a resume\<close>

text \<open>
  The rows of four tables of the schema, with their columns:
  \<^verbatim>\<open>
  CREATE TABLE lib_exp_bullets (id BIGINT PRIMARY KEY, experience_id BIGINT NOT NULL,
      position INT NOT NULL, text TEXT NOT NULL, ...);
  CREATE TABLE resume_exp_bullet_overrides (id BIGINT PRIMARY KEY,
      resume_experience_id BIGINT NOT NULL, lib_exp_bullet_id BIGINT NOT NULL,
      position INT NOT NULL, text_override TEXT,
      FOREIGN KEY (lib_exp_bullet_id) REFERENCES lib_exp_bullets(id), ...);
  \<close>
  and the same two for projects. \<^verbatim>\<open>text_override\<close> is the only nullable column.
\<close>

record lib_exp_bullet =
  leb_id :: int
  leb_experience_id :: int
  leb_position :: int
  leb_text :: string

record resume_exp_bullet_override =
  reo_id :: int
  reo_resume_experience_id :: int
  reo_lib_exp_bullet_id :: int
  reo_position :: int
  reo_text_override :: "string option"

record lib_proj_bullet =
  lpb_id :: int
  lpb_project_id :: int
  lpb_position :: int
  lpb_text :: string

record resume_proj_bullet_override =
  rpo_id :: int
  rpo_resume_project_id :: int
  rpo_lib_proj_bullet_id :: int
  rpo_position :: int
  rpo_text_override :: "string option"

record library =
  lib_exp_bullets :: "lib_exp_bullet list"
  lib_proj_bullets :: "lib_proj_bullet list"

datatype resolve_error = DanglingReferenceError

text \<open>
  The repository declares these tables and has no code that resolves a resume; the
  definitions of this section that are not rows of the schema follow the specification.
\<close>

text \<open>
  Modelled from the spec: the lookup of the library bullet a row refers to, absent from
  the repository; \<open>None\<close> when the library bullet no longer exists.
\<close>

definition lookup_exp_bullet :: "library \<Rightarrow> int \<Rightarrow> lib_exp_bullet option" where
  "lookup_exp_bullet lib i = find (\<lambda>b. leb_id b = i) (lib_exp_bullets lib)"

text \<open>
  Modelled from the spec: the same lookup for project bullets, absent from the repository.
\<close>

definition lookup_proj_bullet :: "library \<Rightarrow> int \<Rightarrow> lib_proj_bullet option" where
  "lookup_proj_bullet lib i = find (\<lambda>b. lpb_id b = i) (lib_proj_bullets lib)"

text \<open>
  Modelled from the spec: the effective text of a bullet, absent from the repository: "the
  override string if present and non-empty, else the text of the referenced library
  bullet".
\<close>

fun effective_text :: "string option \<Rightarrow> string \<Rightarrow> string" where
  "effective_text None canonical = canonical"
| "effective_text (Some t) canonical = (if t \<noteq> [] then t else canonical)"

text \<open>
  Modelled from the spec: what \<^verbatim>\<open>resolve\<close>, absent from the repository, does for one bullet
  of an experience. The library bullet is read when resolving, and "the library bullet
  must still exist": a reference to a deleted bullet fails with
  \<^verbatim>\<open>DanglingReferenceError\<close>, the line is not dropped.
\<close>

definition resolve_exp_bullet ::
  "library \<Rightarrow> resume_exp_bullet_override \<Rightarrow> resolve_error + string" where
  "resolve_exp_bullet lib ov =
     (case lookup_exp_bullet lib (reo_lib_exp_bullet_id ov) of
        None \<Rightarrow> Inl DanglingReferenceError
      | Some b \<Rightarrow> Inr (effective_text (reo_text_override ov) (leb_text b)))"

text \<open>
  Modelled from the spec: what \<^verbatim>\<open>resolve\<close>, absent from the repository, does for one bullet
  of a project.
\<close>

definition resolve_proj_bullet ::
  "library \<Rightarrow> resume_proj_bullet_override \<Rightarrow> resolve_error + string" where
  "resolve_proj_bullet lib ov =
     (case lookup_proj_bullet lib (rpo_lib_proj_bullet_id ov) of
        None \<Rightarrow> Inl DanglingReferenceError
      | Some b \<Rightarrow> Inr (effective_text (rpo_text_override ov) (lpb_text b)))"

text \<open>
  Modelled from the spec: \<^verbatim>\<open>updateItem\<close> of the library store, absent from the repository,
  on the text of an experience bullet. The user edits the canonical text in place; no row
  of a resume is touched.
\<close>

definition edit_exp_bullet :: "int \<Rightarrow> string \<Rightarrow> library \<Rightarrow> library" where
  "edit_exp_bullet i t lib =
     lib\<lparr>lib_exp_bullets :=
           map (\<lambda>b. if leb_id b = i then b\<lparr>leb_text := t\<rparr> else b) (lib_exp_bullets lib)\<rparr>"

text \<open>
  Modelled from the spec: \<^verbatim>\<open>updateItem\<close> of the library store, absent from the repository,
  on the text of a project bullet.
\<close>

definition edit_proj_bullet :: "int \<Rightarrow> string \<Rightarrow> library \<Rightarrow> library" where
  "edit_proj_bullet i t lib =
     lib\<lparr>lib_proj_bullets :=
           map (\<lambda>b. if lpb_id b = i then b\<lparr>lpb_text := t\<rparr> else b) (lib_proj_bullets lib)\<rparr>"

section \<open>Encryption utilities\<close>











section \<open>Example data\<close>

text \<open>
  The scenario of the specification: one experience with the bullets \<^verbatim>\<open>Built X\<close> and
  \<^verbatim>\<open>Shipped Y\<close>, and one project bullet.
\<close>

definition acme_library :: library where
  "acme_library =
     \<lparr>lib_exp_bullets =
        [\<lparr>leb_id = 1, leb_experience_id = 1, leb_position = 0, leb_text = ''Built X''\<rparr>,
         \<lparr>leb_id = 2, leb_experience_id = 1, leb_position = 1, leb_text = ''Shipped Y''\<rparr>],
      lib_proj_bullets =
        [\<lparr>lpb_id = 5, lpb_project_id = 3, lpb_position = 0, lpb_text = ''Wrote Z''\<rparr>]\<rparr>"

text \<open>A fetched page with no \<^verbatim>\<open>h1\<close>, no \<^verbatim>\<open>title\<close> and no mention of a company.\<close>

definition bare_page :: soup where
  "bare_page = \<lparr>find_h1 = None, find_title = None,
                 strings = [''Senior Engineer'', ''Apply now''],
                 get_text = ''Senior Engineer Apply now''\<rparr>"

text \<open>A job description, and an HTTP client that cannot connect.\<close>

definition posting_text :: string where
  "posting_text = ''We need Python and Rust. Python is required, Go too''"

definition unreachable :: fetcher where
  "unreachable = (\<lambda>_. Inl (ExternalError ''connection refused''))"




section \<open>Properties of the validator\<close>

lemma py_in_empty_values:
  "py_in v empty_values \<longleftrightarrow> v = JNone \<or> v = JStr [] \<or> v = JList []"
  by (cases v) (auto simp: py_in_def empty_values_def split: json.splits)

lemma validate_Inr_iff:
  "validate_required_fields data required = Inr () \<longleftrightarrow>
     (\<forall>f\<in>set required. \<not> field_missing data f)"
  by (induction required) auto

lemma first_split_Cons_hit:
  assumes "P a"
  shows "(\<exists>pre f post. a # xs = pre @ f # post \<and> (\<forall>g\<in>set pre. \<not> P g) \<and> P f \<and> Q f) \<longleftrightarrow> Q a"
proof
  assume "\<exists>pre f post. a # xs = pre @ f # post \<and> (\<forall>g\<in>set pre. \<not> P g) \<and> P f \<and> Q f"
  then obtain pre f post where h: "a # xs = pre @ f # post" "\<forall>g\<in>set pre. \<not> P g" "P f" "Q f"
    by blast
  show "Q a"
  proof (cases pre)
    case Nil
    with h show ?thesis by simp
  next
    case (Cons b pre')
    with h(1) have "b = a" by simp
    with Cons h(2) assms show ?thesis by simp
  qed
next
  assume "Q a"
  with assms have "a # xs = [] @ a # xs \<and> (\<forall>g\<in>set []. \<not> P g) \<and> P a \<and> Q a" by simp
  then show "\<exists>pre f post. a # xs = pre @ f # post \<and> (\<forall>g\<in>set pre. \<not> P g) \<and> P f \<and> Q f"
    by blast
qed

lemma first_split_Cons_miss:
  assumes "\<not> P a"
  shows "(\<exists>pre f post. a # xs = pre @ f # post \<and> (\<forall>g\<in>set pre. \<not> P g) \<and> P f \<and> Q f) \<longleftrightarrow>
         (\<exists>pre f post. xs = pre @ f # post \<and> (\<forall>g\<in>set pre. \<not> P g) \<and> P f \<and> Q f)"
proof
  assume "\<exists>pre f post. a # xs = pre @ f # post \<and> (\<forall>g\<in>set pre. \<not> P g) \<and> P f \<and> Q f"
  then obtain pre f post where h: "a # xs = pre @ f # post" "\<forall>g\<in>set pre. \<not> P g" "P f" "Q f"
    by blast
  show "\<exists>pre f post. xs = pre @ f # post \<and> (\<forall>g\<in>set pre. \<not> P g) \<and> P f \<and> Q f"
  proof (cases pre)
    case Nil
    with h assms show ?thesis by simp
  next
    case (Cons b pre')
    with h have "xs = pre' @ f # post \<and> (\<forall>g\<in>set pre'. \<not> P g) \<and> P f \<and> Q f" by simp
    then show ?thesis by blast
  qed
next
  assume "\<exists>pre f post. xs = pre @ f # post \<and> (\<forall>g\<in>set pre. \<not> P g) \<and> P f \<and> Q f"
  then obtain pre f post where h: "xs = pre @ f # post" "\<forall>g\<in>set pre. \<not> P g" "P f" "Q f"
    by blast
  with assms have "a # xs = (a # pre) @ f # post \<and> (\<forall>g\<in>set (a # pre). \<not> P g) \<and> P f \<and> Q f"
    by simp
  then show "\<exists>pre f post. a # xs = pre @ f # post \<and> (\<forall>g\<in>set pre. \<not> P g) \<and> P f \<and> Q f"
    by blast
qed

lemma validate_Inl_iff:
  "validate_required_fields data required = Inl e \<longleftrightarrow>
     (\<exists>pre f post. required = pre @ f # post \<and> (\<forall>g\<in>set pre. \<not> field_missing data g) \<and>
        field_missing data f \<and> e = ValueError (''Missing required field: '' @ f))"
proof (induction required)
  case Nil
  then show ?case by simp
next
  case (Cons a required)
  show ?case
  proof (cases "field_missing data a")
    case True
    show ?thesis
      unfolding first_split_Cons_hit [of "field_missing data", OF True]
      using True by auto
  next
    case False
    show ?thesis
      unfolding first_split_Cons_miss [of "field_missing data", OF False]
      using False Cons.IH by simp
  qed
qed

lemma present_not_missing:
  assumes "data f = Some v" and "v \<noteq> JNone" and "v \<noteq> JStr []" and "v \<noteq> JList []"
  shows "\<not> field_missing data f"
  using assms by (simp add: field_missing_def py_in_empty_values)

lemma field_missing_iff:
  "field_missing data f \<longleftrightarrow>
     data f = None \<or> data f = Some JNone \<or> data f = Some (JStr []) \<or> data f = Some (JList [])"
  by (cases "data f") (simp_all add: field_missing_def py_in_empty_values)

lemma field_present_iff:
  "\<not> field_missing data f \<longleftrightarrow>
     (\<exists>v. data f = Some v \<and> v \<noteq> JNone \<and> v \<noteq> JStr [] \<and> v \<noteq> JList [])"
  by (cases "data f") (simp_all add: field_missing_def py_in_empty_values)

text \<open>
  C2. For every mapping \<open>data\<close> and every list \<open>required\<close> of field names, the validator
  returns normally exactly when every required field is present in the mapping with a
  value other than \<^verbatim>\<open>None\<close>, the empty string and the empty list. It raises an error \<open>e\<close>
  exactly when \<open>e\<close> is the \<^verbatim>\<open>ValueError\<close> whose message names the first field, in the
  order of the list, that is absent from the mapping or has one of these three values:
  every field before it in the list is present with another value.
\<close>

theorem validate_required_fields_first_missing:
  "(validate_required_fields data required = Inr () \<longleftrightarrow>
      (\<forall>f\<in>set required. \<exists>v. data f = Some v \<and> v \<noteq> JNone \<and> v \<noteq> JStr [] \<and> v \<noteq> JList [])) \<and>
   (validate_required_fields data required = Inl e \<longleftrightarrow>
      (\<exists>pre f post. required = pre @ f # post \<and>
         (\<forall>g\<in>set pre. \<exists>v. data g = Some v \<and> v \<noteq> JNone \<and> v \<noteq> JStr [] \<and> v \<noteq> JList []) \<and>
         (data f = None \<or> data f = Some JNone \<or> data f = Some (JStr []) \<or>
          data f = Some (JList [])) \<and>
         e = ValueError (''Missing required field: '' @ f)))"
  unfolding validate_Inr_iff validate_Inl_iff field_present_iff
  by (simp only: field_missing_iff)

theorem validate_required_fields_first_missing_witness:
  "validate_required_fields
     [''email'' \<mapsto> JStr ''a@b.co'', ''name'' \<mapsto> JStr [], ''age'' \<mapsto> JInt 0]
     [''email'', ''age'', ''password'', ''name'']
     = Inl (ValueError ''Missing required field: password'') \<and>
   validate_required_fields
     [''email'' \<mapsto> JStr ''a@b.co'', ''name'' \<mapsto> JStr [], ''age'' \<mapsto> JInt 0]
     [''email'', ''name'', ''password'']
     = Inl (ValueError ''Missing required field: name'') \<and>
   validate_required_fields
     [''email'' \<mapsto> JStr ''a@b.co'', ''name'' \<mapsto> JStr [], ''age'' \<mapsto> JInt 0]
     [''email'', ''age''] = Inr ()"
proof -
  let ?data = "[''email'' \<mapsto> JStr ''a@b.co'', ''name'' \<mapsto> JStr [], ''age'' \<mapsto> JInt 0]"
  let ?absent = "ValueError ''Missing required field: password''"
  let ?blank = "ValueError ''Missing required field: name''"
  have "[''email'', ''age'', ''password'', ''name''] = [''email'', ''age''] @ ''password'' # [''name''] \<and>
        (\<forall>g\<in>set [''email'', ''age''].
            \<exists>v. ?data g = Some v \<and> v \<noteq> JNone \<and> v \<noteq> JStr [] \<and> v \<noteq> JList []) \<and>
        (?data ''password'' = None \<or> ?data ''password'' = Some JNone \<or>
         ?data ''password'' = Some (JStr []) \<or> ?data ''password'' = Some (JList [])) \<and>
        ?absent = ValueError (''Missing required field: '' @ ''password'')"
    by simp
  then have "\<exists>pre f post. [''email'', ''age'', ''password'', ''name''] = pre @ f # post \<and>
        (\<forall>g\<in>set pre. \<exists>v. ?data g = Some v \<and> v \<noteq> JNone \<and> v \<noteq> JStr [] \<and> v \<noteq> JList []) \<and>
        (?data f = None \<or> ?data f = Some JNone \<or> ?data f = Some (JStr []) \<or>
         ?data f = Some (JList [])) \<and>
        ?absent = ValueError (''Missing required field: '' @ f)"
    by blast
  then have first: "validate_required_fields ?data [''email'', ''age'', ''password'', ''name'']
                      = Inl ?absent"
    using validate_required_fields_first_missing
            [of ?data "[''email'', ''age'', ''password'', ''name'']" ?absent]
    by blast
  have "[''email'', ''name'', ''password''] = [''email''] @ ''name'' # [''password''] \<and>
        (\<forall>g\<in>set [''email''].
            \<exists>v. ?data g = Some v \<and> v \<noteq> JNone \<and> v \<noteq> JStr [] \<and> v \<noteq> JList []) \<and>
        (?data ''name'' = None \<or> ?data ''name'' = Some JNone \<or>
         ?data ''name'' = Some (JStr []) \<or> ?data ''name'' = Some (JList [])) \<and>
        ?blank = ValueError (''Missing required field: '' @ ''name'')"
    by simp
  then have "\<exists>pre f post. [''email'', ''name'', ''password''] = pre @ f # post \<and>
        (\<forall>g\<in>set pre. \<exists>v. ?data g = Some v \<and> v \<noteq> JNone \<and> v \<noteq> JStr [] \<and> v \<noteq> JList []) \<and>
        (?data f = None \<or> ?data f = Some JNone \<or> ?data f = Some (JStr []) \<or>
         ?data f = Some (JList [])) \<and>
        ?blank = ValueError (''Missing required field: '' @ f)"
    by blast
  then have second: "validate_required_fields ?data [''email'', ''name'', ''password''] = Inl ?blank"
    using validate_required_fields_first_missing
            [of ?data "[''email'', ''name'', ''password'']" ?blank]
    by blast
  have "\<forall>f\<in>set [''email'', ''age''].
          \<exists>v. ?data f = Some v \<and> v \<noteq> JNone \<and> v \<noteq> JStr [] \<and> v \<noteq> JList []"
    by simp
  then have third: "validate_required_fields ?data [''email'', ''age''] = Inr ()"
    using validate_required_fields_first_missing [of ?data "[''email'', ''age'']" ?blank]
    by blast
  from first second third show ?thesis by blast
qed

lemma validate_single:
  "validate_required_fields data [f] =
     (if field_missing data f then Inl (ValueError (''Missing required field: '' @ f))
      else Inr ())"
  by simp

text \<open>
  C10. A value counts as empty for the validator exactly when it is \<^verbatim>\<open>None\<close>, the empty
  string or the empty list. When every required field is present, the validator returns
  normally exactly when none of them has one of these three values: a present field with
  one of them makes the validator raise the error that names it, and a present field with
  any other value (\<^verbatim>\<open>0\<close>, \<^verbatim>\<open>False\<close>, an empty dict and a string of blanks among them)
  passes.
\<close>

theorem empty_is_none_empty_string_empty_list:
  "(py_in x empty_values \<longleftrightarrow> x = JNone \<or> x = JStr [] \<or> x = JList []) \<and>
   ((\<forall>f\<in>set required. \<exists>v. data f = Some v \<and> v \<noteq> JNone \<and> v \<noteq> JStr [] \<and> v \<noteq> JList [])
      \<longrightarrow> validate_required_fields data required = Inr ()) \<and>
   ((\<forall>f\<in>set required. data f \<noteq> None) \<longrightarrow>
      (validate_required_fields data required = Inr () \<longleftrightarrow>
         (\<forall>f\<in>set required. data f \<noteq> Some JNone \<and> data f \<noteq> Some (JStr []) \<and>
                             data f \<noteq> Some (JList [])))) \<and>
   (data g = Some w \<longrightarrow>
      (w = JNone \<or> w = JStr [] \<or> w = JList [] \<longrightarrow>
         validate_required_fields data [g] = Inl (ValueError (''Missing required field: '' @ g))) \<and>
      (w \<noteq> JNone \<and> w \<noteq> JStr [] \<and> w \<noteq> JList [] \<longrightarrow>
         validate_required_fields data [g] = Inr ()))"
proof (intro conjI impI)
  show "py_in x empty_values \<longleftrightarrow> x = JNone \<or> x = JStr [] \<or> x = JList []"
    by (rule py_in_empty_values)
next
  assume "\<forall>f\<in>set required. \<exists>v. data f = Some v \<and> v \<noteq> JNone \<and> v \<noteq> JStr [] \<and> v \<noteq> JList []"
  then show "validate_required_fields data required = Inr ()"
    by (simp add: validate_Inr_iff field_present_iff)
next
  assume present: "\<forall>f\<in>set required. data f \<noteq> None"
  have "(\<forall>f\<in>set required. \<not> field_missing data f) \<longleftrightarrow>
        (\<forall>f\<in>set required. data f \<noteq> Some JNone \<and> data f \<noteq> Some (JStr []) \<and>
                            data f \<noteq> Some (JList []))"
    using present by (simp add: field_missing_iff)
  then show "validate_required_fields data required = Inr () \<longleftrightarrow>
         (\<forall>f\<in>set required. data f \<noteq> Some JNone \<and> data f \<noteq> Some (JStr []) \<and>
                             data f \<noteq> Some (JList []))"
    by (simp add: validate_Inr_iff)
next
  assume "data g = Some w" "w = JNone \<or> w = JStr [] \<or> w = JList []"
  then have "field_missing data g" by (auto simp: field_missing_iff)
  then show "validate_required_fields data [g] = Inl (ValueError (''Missing required field: '' @ g))"
    by (simp add: validate_single)
next
  assume "data g = Some w" "w \<noteq> JNone \<and> w \<noteq> JStr [] \<and> w \<noteq> JList []"
  then have "\<not> field_missing data g" by (simp add: field_missing_iff)
  then show "validate_required_fields data [g] = Inr ()"
    by (simp add: validate_single)
qed

theorem empty_is_none_empty_string_empty_list_witness:
  "validate_required_fields
     [''count'' \<mapsto> JInt 0, ''flag'' \<mapsto> JBool False, ''extra'' \<mapsto> JDict [], ''name'' \<mapsto> JStr ''  '']
     [''count'', ''flag'', ''extra'', ''name''] = Inr () \<and>
   validate_required_fields [''note'' \<mapsto> JNone] [''note'']
     = Inl (ValueError ''Missing required field: note'') \<and>
   validate_required_fields [''note'' \<mapsto> JStr []] [''note'']
     = Inl (ValueError ''Missing required field: note'') \<and>
   validate_required_fields [''note'' \<mapsto> JList []] [''note'']
     = Inl (ValueError ''Missing required field: note'') \<and>
   \<not> py_in (JInt 0) empty_values \<and> \<not> py_in (JBool False) empty_values \<and>
   \<not> py_in (JDict []) empty_values \<and> \<not> py_in (JStr ''  '') empty_values \<and>
   py_in JNone empty_values \<and> py_in (JStr []) empty_values \<and> py_in (JList []) empty_values"
proof -
  let ?data = "[''count'' \<mapsto> JInt 0, ''flag'' \<mapsto> JBool False, ''extra'' \<mapsto> JDict [],
                ''name'' \<mapsto> JStr ''  '']"
  let ?req = "[''count'', ''flag'', ''extra'', ''name'']"
  have present: "\<forall>f\<in>set ?req. \<exists>v. ?data f = Some v \<and> v \<noteq> JNone \<and> v \<noteq> JStr [] \<and> v \<noteq> JList []"
    by simp
  have "validate_required_fields ?data ?req = Inr ()"
    using empty_is_none_empty_string_empty_list [of _ ?req ?data] present by blast
  moreover have "validate_required_fields [''note'' \<mapsto> JNone] [''note'']
                   = Inl (ValueError ''Missing required field: note'')"
    using empty_is_none_empty_string_empty_list [of _ _ "[''note'' \<mapsto> JNone]" "''note''" JNone]
    by simp
  moreover have "validate_required_fields [''note'' \<mapsto> JStr []] [''note'']
                   = Inl (ValueError ''Missing required field: note'')"
    using empty_is_none_empty_string_empty_list
            [of _ _ "[''note'' \<mapsto> JStr []]" "''note''" "JStr []"]
    by simp
  moreover have "validate_required_fields [''note'' \<mapsto> JList []] [''note'']
                   = Inl (ValueError ''Missing required field: note'')"
    using empty_is_none_empty_string_empty_list
            [of _ _ "[''note'' \<mapsto> JList []]" "''note''" "JList []"]
    by simp
  moreover have "\<not> py_in (JInt 0) empty_values"
    using empty_is_none_empty_string_empty_list [of "JInt 0"] by simp
  moreover have "\<not> py_in (JBool False) empty_values"
    using empty_is_none_empty_string_empty_list [of "JBool False"] by simp
  moreover have "\<not> py_in (JDict []) empty_values"
    using empty_is_none_empty_string_empty_list [of "JDict []"] by simp
  moreover have "\<not> py_in (JStr ''  '') empty_values"
    using empty_is_none_empty_string_empty_list [of "JStr ''  ''"] by simp
  moreover have "py_in JNone empty_values \<and> py_in (JStr []) empty_values \<and>
      py_in (JList []) empty_values"
    using empty_is_none_empty_string_empty_list [of JNone]
      empty_is_none_empty_string_empty_list [of "JStr []"]
      empty_is_none_empty_string_empty_list [of "JList []"] by simp
  ultimately show ?thesis by simp
qed

section \<open>Properties of the response helpers\<close>

lemma success_body_Some:
  "body (success_response (Some d) st) = [''success'' \<mapsto> JBool True] ++ d"
  by (auto simp: success_response_def jsonify_def Let_def)

lemma success_body_None:
  "body (success_response None st) = [''success'' \<mapsto> JBool True]"
  by (simp add: success_response_def jsonify_def)

lemma success_status: "status (success_response data st) = st"
  by (simp add: success_response_def Let_def)

text \<open>
  C8, as amended. For every message and status, \<open>error_response\<close> returns the body
  \<^verbatim>\<open>{success: false, error: message}\<close> with that status. For every data mapping and
  status, \<open>success_response\<close> returns that status and a body whose keys are \<^verbatim>\<open>success\<close> and
  the keys of the data, in which every entry of the data appears as given; the body holds
  \<^verbatim>\<open>success: true\<close> when the data has no \<^verbatim>\<open>success\<close> key of its own, and without data the
  body is \<^verbatim>\<open>{success: true}\<close>.
\<close>

theorem response_bodies:
  "error_response message st =
     \<lparr>body = [''success'' \<mapsto> JBool False, ''error'' \<mapsto> JStr message], status = st\<rparr> \<and>
   status (success_response data st) = st \<and>
   body (success_response None st) = [''success'' \<mapsto> JBool True] \<and>
   (\<forall>d. data = Some d \<longrightarrow>
      (\<forall>k v. d k = Some v \<longrightarrow> body (success_response data st) k = Some v) \<and>
      (d ''success'' = None \<longrightarrow> body (success_response data st) ''success'' = Some (JBool True)) \<and>
      dom (body (success_response data st)) = insert ''success'' (dom d))"
proof (intro conjI allI impI)
  show "error_response message st =
     \<lparr>body = [''success'' \<mapsto> JBool False, ''error'' \<mapsto> JStr message], status = st\<rparr>"
    by (simp add: error_response_def jsonify_def)
  show "status (success_response data st) = st" by (rule success_status)
  show "body (success_response None st) = [''success'' \<mapsto> JBool True]" by (rule success_body_None)
next
  fix d k v assume "data = Some d" "d k = Some v"
  then show "body (success_response data st) k = Some v"
    by (simp add: success_body_Some map_add_Some_iff)
next
  fix d assume "data = Some d" "d ''success'' = None"
  then show "body (success_response data st) ''success'' = Some (JBool True)"
    by (simp add: success_body_Some map_add_def)
next
  fix d assume "data = Some d"
  then show "dom (body (success_response data st)) = insert ''success'' (dom d)"
    by (auto simp: success_body_Some)
qed

theorem response_bodies_witness:
  "body (success_response (Some [''id'' \<mapsto> JInt 7]) 201) ''id'' = Some (JInt 7) \<and>
   body (success_response (Some [''id'' \<mapsto> JInt 7]) 201) ''success'' = Some (JBool True) \<and>
   status (success_response (Some [''id'' \<mapsto> JInt 7]) 201) = 201 \<and>
   body (error_response ''Email already registered'' 409) ''error''
     = Some (JStr ''Email already registered'') \<and>
   body (error_response ''Email already registered'' 409) ''success'' = Some (JBool False)"
  using response_bodies [of "''Email already registered''" 409 "Some [''id'' \<mapsto> JInt 7]"]
    response_bodies [of "''Email already registered''" 201 "Some [''id'' \<mapsto> JInt 7]"]
  by simp

text \<open>
  The claim C8 as written fails: with the data \<^verbatim>\<open>{"success": false, "id": 7}\<close> the body
  of \<open>success_response\<close> holds \<^verbatim>\<open>success: false\<close>.
\<close>

theorem success_flag_not_always_true_counterexample:
  "body (success_response (Some [''success'' \<mapsto> JBool False, ''id'' \<mapsto> JInt 7]) 201) ''success''
     = Some (JBool False)"
  by (simp add: success_body_Some)

text \<open>
  C9. The payload starts as \<^verbatim>\<open>{success: true}\<close> and is then updated with the data, so a
  data mapping with a \<^verbatim>\<open>success\<close> key of its own overwrites the flag: the body reports the
  value the data gives, with the status asked for. With \<^verbatim>\<open>{"success": false}\<close> and the
  status 200 the body reports \<^verbatim>\<open>success: false\<close>.
\<close>

theorem success_flag_overwritten:
  "d ''success'' = Some v \<Longrightarrow>
     body (success_response (Some d) st) ''success'' = Some v \<and>
     status (success_response (Some d) st) = st"
  by (simp add: success_body_Some success_status map_add_Some_iff)

theorem success_flag_overwritten_witness:
  "[''success'' \<mapsto> JBool False] ''success'' = Some (JBool False) \<and>
   body (success_response (Some [''success'' \<mapsto> JBool False]) 200) ''success'' = Some (JBool False) \<and>
   body (success_response (Some [''success'' \<mapsto> JBool False]) 200) ''success'' \<noteq> Some (JBool True) \<and>
   status (success_response (Some [''success'' \<mapsto> JBool False]) 200) = 200"
proof -
  have h: "[''success'' \<mapsto> JBool False] ''success'' = Some (JBool False)" by simp
  show ?thesis
    using h success_flag_overwritten [of "[''success'' \<mapsto> JBool False]" "JBool False" 200]
    by simp
qed

section \<open>Properties of bullet resolution\<close>

lemma find_map_key:
  assumes "\<And>b. key (f b) = key b"
  shows "find (\<lambda>b. key b = i) (map f bs) = map_option f (find (\<lambda>b. key b = i) bs)"
  using assms by (induction bs) auto

lemma lookup_edit_exp:
  "lookup_exp_bullet (edit_exp_bullet i t lib) j =
     map_option (\<lambda>b. if leb_id b = i then b\<lparr>leb_text := t\<rparr> else b) (lookup_exp_bullet lib j)"
  unfolding lookup_exp_bullet_def edit_exp_bullet_def
  by (simp add: find_map_key [where key = leb_id])

lemma lookup_exp_id: "lookup_exp_bullet lib j = Some b \<Longrightarrow> leb_id b = j"
  unfolding lookup_exp_bullet_def by (auto simp: find_Some_iff)

lemma lookup_edit_proj:
  "lookup_proj_bullet (edit_proj_bullet i t lib) j =
     map_option (\<lambda>b. if lpb_id b = i then b\<lparr>lpb_text := t\<rparr> else b) (lookup_proj_bullet lib j)"
  unfolding lookup_proj_bullet_def edit_proj_bullet_def
  by (simp add: find_map_key [where key = lpb_id])

lemma lookup_proj_id: "lookup_proj_bullet lib j = Some b \<Longrightarrow> lpb_id b = j"
  unfolding lookup_proj_bullet_def by (auto simp: find_Some_iff)

lemma resolve_exp_bullet_rule:
  "(case lookup_exp_bullet lib (reo_lib_exp_bullet_id ov) of
      None \<Rightarrow> resolve_exp_bullet lib ov = Inl DanglingReferenceError
    | Some b \<Rightarrow>
        (\<forall>t. reo_text_override ov = Some t \<and> t \<noteq> [] \<longrightarrow>
           resolve_exp_bullet lib ov = Inr t \<and>
           resolve_exp_bullet (edit_exp_bullet (reo_lib_exp_bullet_id ov) new lib) ov = Inr t) \<and>
        (reo_text_override ov = None \<or> reo_text_override ov = Some [] \<longrightarrow>
           resolve_exp_bullet lib ov = Inr (leb_text b) \<and>
           resolve_exp_bullet (edit_exp_bullet (reo_lib_exp_bullet_id ov) new lib) ov = Inr new))"
  using lookup_exp_id [of lib "reo_lib_exp_bullet_id ov"]
  by (auto simp: resolve_exp_bullet_def lookup_edit_exp split: option.splits)

lemma resolve_proj_bullet_rule:
  "(case lookup_proj_bullet lib (rpo_lib_proj_bullet_id ov) of
      None \<Rightarrow> resolve_proj_bullet lib ov = Inl DanglingReferenceError
    | Some b \<Rightarrow>
        (\<forall>t. rpo_text_override ov = Some t \<and> t \<noteq> [] \<longrightarrow>
           resolve_proj_bullet lib ov = Inr t \<and>
           resolve_proj_bullet (edit_proj_bullet (rpo_lib_proj_bullet_id ov) new lib) ov = Inr t) \<and>
        (rpo_text_override ov = None \<or> rpo_text_override ov = Some [] \<longrightarrow>
           resolve_proj_bullet lib ov = Inr (lpb_text b) \<and>
           resolve_proj_bullet (edit_proj_bullet (rpo_lib_proj_bullet_id ov) new lib) ov = Inr new))"
  using lookup_proj_id [of lib "rpo_lib_proj_bullet_id ov"]
  by (auto simp: resolve_proj_bullet_def lookup_edit_proj split: option.splits)

text \<open>
  C1. For every library and every bullet override row, of an experience or of a project,
  of any resume: when the referenced library bullet exists, the resolved display text is
  the override string if that is present and non-empty, and the text of the library
  bullet otherwise. Binding is late: after the library bullet is edited to \<open>new\<close>, a row
  that does not override it resolves to \<open>new\<close>, and a row that overrides it still resolves
  to its override. When the referenced bullet no longer exists, resolution fails with
  \<^verbatim>\<open>DanglingReferenceError\<close>; no text is returned.
\<close>

theorem bullet_override_resolution:
  "(case lookup_exp_bullet lib (reo_lib_exp_bullet_id eov) of
      None \<Rightarrow> resolve_exp_bullet lib eov = Inl DanglingReferenceError
    | Some b \<Rightarrow>
        (\<forall>t. reo_text_override eov = Some t \<and> t \<noteq> [] \<longrightarrow>
           resolve_exp_bullet lib eov = Inr t \<and>
           resolve_exp_bullet (edit_exp_bullet (reo_lib_exp_bullet_id eov) new lib) eov = Inr t) \<and>
        (reo_text_override eov = None \<or> reo_text_override eov = Some [] \<longrightarrow>
           resolve_exp_bullet lib eov = Inr (leb_text b) \<and>
           resolve_exp_bullet (edit_exp_bullet (reo_lib_exp_bullet_id eov) new lib) eov = Inr new)) \<and>
   (case lookup_proj_bullet lib (rpo_lib_proj_bullet_id pov) of
      None \<Rightarrow> resolve_proj_bullet lib pov = Inl DanglingReferenceError
    | Some b \<Rightarrow>
        (\<forall>t. rpo_text_override pov = Some t \<and> t \<noteq> [] \<longrightarrow>
           resolve_proj_bullet lib pov = Inr t \<and>
           resolve_proj_bullet (edit_proj_bullet (rpo_lib_proj_bullet_id pov) new lib) pov = Inr t) \<and>
        (rpo_text_override pov = None \<or> rpo_text_override pov = Some [] \<longrightarrow>
           resolve_proj_bullet lib pov = Inr (lpb_text b) \<and>
           resolve_proj_bullet (edit_proj_bullet (rpo_lib_proj_bullet_id pov) new lib) pov = Inr new))"
  using resolve_exp_bullet_rule resolve_proj_bullet_rule by (rule conjI)

theorem bullet_override_resolution_witness:
  "resolve_exp_bullet acme_library
     \<lparr>reo_id = 10, reo_resume_experience_id = 4, reo_lib_exp_bullet_id = 1, reo_position = 0,
      reo_text_override = None\<rparr> = Inr ''Built X'' \<and>
   resolve_exp_bullet (edit_exp_bullet 1 ''Built X2'' acme_library)
     \<lparr>reo_id = 10, reo_resume_experience_id = 4, reo_lib_exp_bullet_id = 1, reo_position = 0,
      reo_text_override = None\<rparr> = Inr ''Built X2'' \<and>
   resolve_proj_bullet acme_library
     \<lparr>rpo_id = 11, rpo_resume_project_id = 6, rpo_lib_proj_bullet_id = 5, rpo_position = 0,
      rpo_text_override = Some ''Wrote Z in Rust''\<rparr> = Inr ''Wrote Z in Rust'' \<and>
   resolve_proj_bullet (edit_proj_bullet 5 ''Wrote Z2'' acme_library)
     \<lparr>rpo_id = 11, rpo_resume_project_id = 6, rpo_lib_proj_bullet_id = 5, rpo_position = 0,
      rpo_text_override = Some ''Wrote Z in Rust''\<rparr> = Inr ''Wrote Z in Rust''"
proof -
  let ?eov = "\<lparr>reo_id = 10, reo_resume_experience_id = 4, reo_lib_exp_bullet_id = 1,
               reo_position = 0, reo_text_override = None\<rparr>"
  let ?pov = "\<lparr>rpo_id = 11, rpo_resume_project_id = 6, rpo_lib_proj_bullet_id = 5,
               rpo_position = 0, rpo_text_override = Some ''Wrote Z in Rust''\<rparr>"
  have e: "lookup_exp_bullet acme_library (reo_lib_exp_bullet_id ?eov)
             = Some \<lparr>leb_id = 1, leb_experience_id = 1, leb_position = 0, leb_text = ''Built X''\<rparr>"
    by (simp add: lookup_exp_bullet_def acme_library_def)
  have p: "lookup_proj_bullet acme_library (rpo_lib_proj_bullet_id ?pov)
             = Some \<lparr>lpb_id = 5, lpb_project_id = 3, lpb_position = 0, lpb_text = ''Wrote Z''\<rparr>"
    by (simp add: lookup_proj_bullet_def acme_library_def)
  have "resolve_exp_bullet acme_library ?eov = Inr ''Built X'' \<and>
        resolve_exp_bullet (edit_exp_bullet 1 ''Built X2'' acme_library) ?eov = Inr ''Built X2''"
    using bullet_override_resolution [of acme_library ?eov "''Built X2''" ?pov] e
    by simp
  moreover
  have "resolve_proj_bullet acme_library ?pov = Inr ''Wrote Z in Rust'' \<and>
        resolve_proj_bullet (edit_proj_bullet 5 ''Wrote Z2'' acme_library) ?pov = Inr ''Wrote Z in Rust''"
    using bullet_override_resolution [of acme_library ?eov "''Wrote Z2''" ?pov] p
    by simp
  ultimately show ?thesis by blast
qed

section \<open>Properties of the services\<close>

lemma smart_fill_failure:
  assumes "create (smart_fill_request py_str type input_data) = Inl e"
  shows "smart_fill py_str create type input_data lg =
           (ErrorResponse (error_response ''Failed to generate description'' 500),
            lg @ [(''Error in smart_fill: '', e)])"
  using assms by (simp add: smart_fill_def bind_exn_def)

lemma cover_letter_failure:
  assumes "create (cover_letter_request py_str user_data job_data resume_data) = Inl e"
  shows "generate_cover_letter py_str create user_data job_data resume_data lg =
           (ErrorResponse (error_response ''Failed to generate cover letter'' 500),
            lg @ [(''Error generating cover letter: '', e)])"
  using assms by (simp add: generate_cover_letter_def bind_exn_def)

lemma error_response_body:
  "error_response message st =
     \<lparr>body = [''success'' \<mapsto> JBool False, ''error'' \<mapsto> JStr message], status = st\<rparr>"
  by (simp add: error_response_def jsonify_def)

text \<open>
  C5. Whenever the call to the language model fails, with whatever exception \<open>e\<close> (a
  timeout is one), \<open>smart_fill\<close> and \<open>generate_cover_letter\<close> return a value and raise
  nothing: the response with status 500 whose body is \<^verbatim>\<open>{success: false, error: "Failed to
  generate description"}\<close>, respectively \<^verbatim>\<open>"Failed to generate cover letter"\<close>. The body
  is the same for every \<open>e\<close>: the detail of the failure goes to the log and nowhere else.
\<close>

theorem llm_failure_generic_response:
  "(create (smart_fill_request py_str type input_data) = Inl e \<longrightarrow>
      fst (smart_fill py_str create type input_data lg) =
        ErrorResponse \<lparr>body = [''success'' \<mapsto> JBool False,
                                ''error'' \<mapsto> JStr ''Failed to generate description''],
                        status = 500\<rparr> \<and>
      snd (smart_fill py_str create type input_data lg) = lg @ [(''Error in smart_fill: '', e)]) \<and>
   (create (cover_letter_request py_str user_data job_data resume_data) = Inl e' \<longrightarrow>
      fst (generate_cover_letter py_str create user_data job_data resume_data lg) =
        ErrorResponse \<lparr>body = [''success'' \<mapsto> JBool False,
                                ''error'' \<mapsto> JStr ''Failed to generate cover letter''],
                        status = 500\<rparr> \<and>
      snd (generate_cover_letter py_str create user_data job_data resume_data lg) =
        lg @ [(''Error generating cover letter: '', e')])"
  by (simp add: smart_fill_failure cover_letter_failure error_response_body)

theorem llm_failure_generic_response_witness:
  "fst (smart_fill (\<lambda>_. ''{}'') (\<lambda>_. Inl (ExternalError ''Rate limit reached for org-42''))
          ''work_experience'' (JDict []) []) =
     ErrorResponse \<lparr>body = [''success'' \<mapsto> JBool False,
                             ''error'' \<mapsto> JStr ''Failed to generate description''],
                     status = 500\<rparr> \<and>
   fst (generate_cover_letter (\<lambda>_. ''{}'') (\<lambda>_. Inl (ExternalError ''Request timed out''))
          (JDict []) (JDict []) (JDict []) []) =
     ErrorResponse \<lparr>body = [''success'' \<mapsto> JBool False,
                             ''error'' \<mapsto> JStr ''Failed to generate cover letter''],
                     status = 500\<rparr>"
proof -
  let ?str = "\<lambda>_::json. ''{}''"
  let ?c1 = "\<lambda>_::chat_request. (Inl (ExternalError ''Rate limit reached for org-42'') :: exn + json)"
  let ?c2 = "\<lambda>_::chat_request. (Inl (ExternalError ''Request timed out'') :: exn + json)"
  have h1: "?c1 (smart_fill_request ?str ''work_experience'' (JDict []))
              = Inl (ExternalError ''Rate limit reached for org-42'')"
    by simp
  have h2: "?c2 (cover_letter_request ?str (JDict []) (JDict []) (JDict []))
              = Inl (ExternalError ''Request timed out'')"
    by simp
  from h1 llm_failure_generic_response
         [of ?c1 ?str "''work_experience''" "JDict []" "ExternalError ''Rate limit reached for org-42''" "[]"]
  have a: "fst (smart_fill ?str ?c1 ''work_experience'' (JDict []) []) =
     ErrorResponse \<lparr>body = [''success'' \<mapsto> JBool False,
                             ''error'' \<mapsto> JStr ''Failed to generate description''],
                     status = 500\<rparr>"
    by blast
  from h2 llm_failure_generic_response
         [of ?c2 ?str _ _ _ "[]" "JDict []" "JDict []" "JDict []" "ExternalError ''Request timed out''"]
  have b: "fst (generate_cover_letter ?str ?c2 (JDict []) (JDict []) (JDict []) []) =
     ErrorResponse \<lparr>body = [''success'' \<mapsto> JBool False,
                             ''error'' \<mapsto> JStr ''Failed to generate cover letter''],
                     status = 500\<rparr>"
    by blast
  from a b show ?thesis by blast
qed

subsection \<open>Scraping a job posting\<close>

lemma find_company_None:
  "(\<forall>s\<in>set (strings page). \<not> re_search company_pattern s) \<Longrightarrow> find_company page = None"
  by (simp add: find_company_def find_None_iff)

lemma find_heading_None:
  "find_h1 page = None \<Longrightarrow> find_title page = None \<Longrightarrow> find_heading page = None"
  by (simp add: find_heading_def)

text \<open>
  C7. For every page that was fetched, \<open>scrape_job_posting\<close> returns a dict with a title, a
  company and a description, and no error: the title is \<^verbatim>\<open>Untitled\<close> when the page has
  neither an \<^verbatim>\<open>h1\<close> nor a \<^verbatim>\<open>title\<close> element, and the company is \<^verbatim>\<open>Unknown Company\<close> when
  no text of the page mentions a company or an employer.
\<close>

theorem scrape_placeholders:
  assumes "fetch url = Inr page"
  shows "\<exists>title company.
           scrape_job_posting fetch url lg =
             (Returned (JDict [(''title'', JStr title), (''company'', JStr company),
                               (''description'', JStr (take 1500 (get_text page)))]), lg) \<and>
           (find_h1 page = None \<and> find_title page = None \<longrightarrow> title = ''Untitled'') \<and>
           ((\<forall>s\<in>set (strings page). \<not> re_search company_pattern s) \<longrightarrow>
              company = ''Unknown Company'')"
proof -
  let ?title = "case find_heading page of Some t \<Rightarrow> get_text_strip t | None \<Rightarrow> ''Untitled''"
  let ?company = "if truthy (find_company page)
                  then strip (case find_company page of Some c \<Rightarrow> c | None \<Rightarrow> [])
                  else ''Unknown Company''"
  have "scrape_job_posting fetch url lg =
          (Returned (JDict [(''title'', JStr ?title), (''company'', JStr ?company),
                            (''description'', JStr (take 1500 (get_text page)))]), lg)"
    using assms by (simp add: scrape_job_posting_def Let_def)
  moreover have "find_h1 page = None \<and> find_title page = None \<longrightarrow> ?title = ''Untitled''"
    by (simp add: find_heading_None)
  moreover have "(\<forall>s\<in>set (strings page). \<not> re_search company_pattern s) \<longrightarrow>
                   ?company = ''Unknown Company''"
    by (simp add: find_company_None)
  ultimately show ?thesis by blast
qed

theorem scrape_placeholders_witness:
  "scrape_job_posting (\<lambda>_. Inr bare_page) ''https://jobs.example/1'' [] =
     (Returned (JDict [(''title'', JStr ''Untitled''), (''company'', JStr ''Unknown Company''),
                       (''description'', JStr ''Senior Engineer Apply now'')]), [])"
proof -
  let ?fetch = "\<lambda>_::string. (Inr bare_page :: exn + soup)"
  have f: "?fetch ''https://jobs.example/1'' = Inr bare_page" by simp
  have h: "find_h1 bare_page = None \<and> find_title bare_page = None"
    by (simp add: bare_page_def)
  have c: "\<forall>s\<in>set (strings bare_page). \<not> re_search company_pattern s"
    by (simp add: bare_page_def re_search_def company_pattern_def either_case_def)
  have d: "take 1500 (get_text bare_page) = ''Senior Engineer Apply now''"
    by (simp add: bare_page_def)
  from scrape_placeholders [of ?fetch "''https://jobs.example/1''" bare_page "[]", OF f]
  show ?thesis using h c d by auto
qed

subsection \<open>Keyword extraction\<close>

lemma rmatch_le_length: "rmatch its prev s = Some n \<Longrightarrow> n \<le> length s"
proof (induction its prev s arbitrary: n rule: rmatch.induct)
  case (10 p its prev c cs)
  then show ?case by (fastforce split: if_splits option.splits)
qed (fastforce split: if_splits)+

lemma amatch_Some:
  "amatch alts prev s = Some n \<Longrightarrow> \<exists>a\<in>set alts. rmatch a prev s = Some n"
  by (induction alts) (auto split: option.splits)

lemma amatch_le_length: "amatch alts prev s = Some n \<Longrightarrow> n \<le> length s"
  using amatch_Some rmatch_le_length by blast

lemma findall_from_elems:
  "(\<And>prev s n. amatch alts prev s = Some n \<Longrightarrow> Q (take n s)) \<Longrightarrow>
     \<forall>w\<in>set (findall_from alts prev s). Q w"
proof (induction alts prev s rule: findall_from.induct)
  case (1 alts prev)
  show ?case
  proof (cases "amatch alts prev []")
    case None
    then show ?thesis by simp
  next
    case (Some n)
    from "1.prems" [OF Some] have "Q []" by simp
    with Some show ?thesis by simp
  qed
next
  case (2 alts prev c cs)
  note hyp = "2.prems"
  show ?case
  proof (cases "amatch alts prev (c # cs)")
    case None
    then have eq: "findall_from alts prev (c # cs) = findall_from alts (Some c) cs"
      by simp
    have "\<forall>w\<in>set (findall_from alts (Some c) cs). Q w"
      using "2.IH"(1) [OF None] hyp by blast
    with eq show ?thesis by simp
  next
    case (Some n)
    from hyp [OF Some] have q: "Q (take n (c # cs))" .
    show ?thesis
    proof (cases "n = 0")
      case True
      with Some have eq: "findall_from alts prev (c # cs) = [] # findall_from alts (Some c) cs"
        by simp
      have "\<forall>w\<in>set (findall_from alts (Some c) cs). Q w"
        using "2.IH"(2) [OF Some True] hyp by blast
      moreover from q True have "Q []" by simp
      ultimately show ?thesis unfolding eq by simp
    next
      case False
      with Some have eq: "findall_from alts prev (c # cs) =
          take n (c # cs) #
          findall_from alts (Some (last (take n (c # cs)))) (drop n (c # cs))"
        by simp
      have "\<forall>w\<in>set (findall_from alts (Some (last (take n (c # cs)))) (drop n (c # cs))). Q w"
        using "2.IH"(3) [OF Some False] hyp by blast
      with q show ?thesis unfolding eq by simp
    qed
  qed
qed

lemma findall_from_sublist:
  "\<forall>w\<in>set (findall_from alts prev s). sublist w s"
proof (induction alts prev s rule: findall_from.induct)
  case (1 alts prev)
  then show ?case by (auto split: option.splits)
next
  case (2 alts prev c cs)
  show ?case
  proof (cases "amatch alts prev (c # cs)")
    case None
    with 2 show ?thesis by (auto simp: sublist_Cons_right)
  next
    case (Some n)
    show ?thesis
    proof (cases "n = 0")
      case True
      with Some 2 show ?thesis by (auto simp: sublist_Cons_right)
    next
      case False
      have "sublist w (c # cs)" if "sublist w (drop n (c # cs))" for w
        using that sublist_drop [of n "c # cs"] sublist_order.order_trans by blast
      with False Some 2 show ?thesis by (auto simp del: drop_Suc_Cons take_Suc_Cons)
    qed
  qed
qed

lemma rmatch_Plus1_Some:
  "rmatch (Plus1 p # its) prev s = Some n \<Longrightarrow>
     \<exists>k m. n = k + m \<and> 0 < k \<and> k \<le> length s \<and> list_all p (take k s) \<and>
           rmatch its (Some (s ! (k - 1))) (drop k s) = Some m"
proof (induction s arbitrary: prev n)
  case Nil
  then show ?case by simp
next
  case (Cons c cs)
  from Cons.prems have pc: "p c" by (simp split: if_splits)
  show ?case
  proof (cases "rmatch (Plus1 p # its) (Some c) cs")
    case None
    with Cons.prems pc obtain m where m: "rmatch its (Some c) cs = Some m" "n = Suc m"
      by auto
    have "n = 1 + m \<and> 0 < (1::nat) \<and> 1 \<le> length (c # cs) \<and> list_all p (take 1 (c # cs)) \<and>
          rmatch its (Some ((c # cs) ! (1 - 1))) (drop 1 (c # cs)) = Some m"
      using m pc by simp
    then show ?thesis by blast
  next
    case (Some n')
    with Cons.prems pc have n: "n = Suc n'" by simp
    from Cons.IH [OF Some] obtain k m where
      km: "n' = k + m" "0 < k" "k \<le> length cs" "list_all p (take k cs)"
          "rmatch its (Some (cs ! (k - 1))) (drop k cs) = Some m"
      by blast
    have "n = Suc k + m \<and> 0 < Suc k \<and> Suc k \<le> length (c # cs) \<and>
          list_all p (take (Suc k) (c # cs)) \<and>
          rmatch its (Some ((c # cs) ! (Suc k - 1))) (drop (Suc k) (c # cs)) = Some m"
      using km n pc by (cases k) auto
    then show ?thesis by blast
  qed
qed

lemma upper_is_letter: "upper_char c \<Longrightarrow> letter_char c"
  by (simp add: letter_char_def)

lemma keyword_match_shape:
  assumes "amatch keyword_pattern prev s = Some n"
  shows "2 \<le> length (take n s) \<and> upper_char (hd (take n s)) \<and> list_all letter_char (take n s)"
proof -
  from amatch_Some [OF assms]
  have r: "rmatch [WordB, Cls upper_char, Plus1 letter_char, WordB] prev s = Some n"
    by (simp add: keyword_pattern_def)
  then obtain c cs where s: "s = c # cs" by (cases s) (auto split: if_splits)
  from r s have up: "upper_char c" by (auto split: if_splits)
  from r s up obtain n' where
    n': "rmatch [Plus1 letter_char, WordB] (Some c) cs = Some n'" "n = Suc n'"
    by (auto split: if_splits)
  from rmatch_Plus1_Some [OF n'(1)] obtain k m where
    km: "n' = k + m" "0 < k" "k \<le> length cs" "list_all letter_char (take k cs)"
        "rmatch [WordB] (Some (cs ! (k - 1))) (drop k cs) = Some m"
    by blast
  from km(5) have "m = 0" by (auto split: if_splits)
  with km n' have "n = Suc k" by simp
  with s up km show ?thesis by (simp add: upper_is_letter)
qed

lemma findall_keyword_shape:
  "\<forall>w\<in>set (findall keyword_pattern text).
      2 \<le> length w \<and> upper_char (hd w) \<and> list_all letter_char w \<and> sublist w text"
proof -
  let ?Q = "\<lambda>w. 2 \<le> length w \<and> upper_char (hd w) \<and> list_all letter_char w"
  have "\<forall>w\<in>set (findall_from keyword_pattern None text). ?Q w"
    by (rule findall_from_elems [where Q = ?Q]) (rule keyword_match_shape)
  moreover have "\<forall>w\<in>set (findall_from keyword_pattern None text). sublist w text"
    by (rule findall_from_sublist)
  ultimately show ?thesis unfolding findall_def by blast
qed

lemma keywords_of_props:
  assumes "set_enumeration list_set"
  shows "length (keywords_of list_set text) \<le> 20 \<and> distinct (keywords_of list_set text) \<and>
         (\<forall>k\<in>set (keywords_of list_set text).
            2 < length k \<and> upper_char (hd k) \<and> list_all letter_char k \<and> sublist k text)"
proof -
  let ?ws = "filter (\<lambda>w. length w > 2) (findall keyword_pattern text)"
  from assms have en: "distinct (list_set ?ws)" "set (list_set ?ws) = set ?ws"
    by (simp_all add: set_enumeration_def)
  have ks: "keywords_of list_set text = take 20 (list_set ?ws)"
    by (simp add: keywords_of_def)
  have "set (keywords_of list_set text) \<subseteq> set ?ws"
    unfolding ks using en(2) set_take_subset by fastforce
  then have "\<forall>k\<in>set (keywords_of list_set text).
            2 < length k \<and> upper_char (hd k) \<and> list_all letter_char k \<and> sublist k text"
    using findall_keyword_shape [of "text"] by auto
  moreover have "length (keywords_of list_set text) \<le> 20" unfolding ks by simp
  moreover have "distinct (keywords_of list_set text)" unfolding ks using en(1) by simp
  ultimately show ?thesis by blast
qed

lemma extract_keywords_text:
  assumes "text \<noteq> []"
  shows "extract_keywords list_set fetch url (Some text) lg =
           (Returned (JDict [(''keywords'', JList (map JStr (keywords_of list_set text)))]), lg)"
  using assms by (cases url) (simp_all add: extract_keywords_def fetched_text_def)

lemma extract_keywords_nothing:
  assumes "\<not> truthy url" and "\<not> truthy text"
  shows "extract_keywords list_set fetch url text lg =
           (ErrorResponse (error_response ''No content provided for keyword extraction'' 400), lg)"
proof -
  from assms have "fetched_text fetch url text = Inr text"
    by (cases url) (simp_all add: fetched_text_def)
  with assms(2) show ?thesis
    by (cases "text") (simp_all add: extract_keywords_def)
qed

lemma extract_keywords_empty_page:
  assumes "u \<noteq> []" and "\<not> truthy text" and "fetch u = Inr page" and "get_text page = []"
  shows "extract_keywords list_set fetch (Some u) text lg =
           (ErrorResponse (error_response ''No content provided for keyword extraction'' 400), lg)"
  using assms by (simp add: extract_keywords_def fetched_text_def)

text \<open>
  C6. Whatever order the set of words is enumerated in: for every non-empty text,
  \<open>extract_keywords\<close> returns a dict with a list of at most 20 keywords, no keyword twice,
  each of them longer than 2 characters, starting with a capital letter, made of letters
  only, and occurring in the text. When neither a text nor a URL is given, and when the
  page fetched from the URL has no text, it returns the error response with status 400
  and no keywords.
\<close>

theorem extract_keywords_bounded:
  assumes "set_enumeration list_set"
  shows "(text \<noteq> [] \<longrightarrow>
            (\<exists>ks. extract_keywords list_set fetch url (Some text) lg =
                    (Returned (JDict [(''keywords'', JList (map JStr ks))]), lg) \<and>
                  length ks \<le> 20 \<and> distinct ks \<and>
                  (\<forall>k\<in>set ks. 2 < length k \<and> upper_char (hd k) \<and> list_all letter_char k \<and>
                               sublist k text))) \<and>
         (\<not> truthy url \<and> \<not> truthy content \<longrightarrow>
            extract_keywords list_set fetch url content lg =
              (ErrorResponse (error_response ''No content provided for keyword extraction'' 400),
               lg)) \<and>
         (u \<noteq> [] \<and> \<not> truthy content \<and> fetch u = Inr page \<and> get_text page = [] \<longrightarrow>
            extract_keywords list_set fetch (Some u) content lg =
              (ErrorResponse (error_response ''No content provided for keyword extraction'' 400),
               lg))"
proof (intro conjI impI)
  assume ne: "text \<noteq> []"
  from keywords_of_props [OF assms, of "text"] extract_keywords_text [OF ne]
  show "\<exists>ks. extract_keywords list_set fetch url (Some text) lg =
                    (Returned (JDict [(''keywords'', JList (map JStr ks))]), lg) \<and>
                  length ks \<le> 20 \<and> distinct ks \<and>
                  (\<forall>k\<in>set ks. 2 < length k \<and> upper_char (hd k) \<and> list_all letter_char k \<and>
                               sublist k text)"
    by blast
next
  assume "\<not> truthy url \<and> \<not> truthy content"
  then show "extract_keywords list_set fetch url content lg =
              (ErrorResponse (error_response ''No content provided for keyword extraction'' 400),
               lg)"
    by (simp add: extract_keywords_nothing)
next
  assume "u \<noteq> [] \<and> \<not> truthy content \<and> fetch u = Inr page \<and> get_text page = []"
  then show "extract_keywords list_set fetch (Some u) content lg =
              (ErrorResponse (error_response ''No content provided for keyword extraction'' 400),
               lg)"
    by (simp add: extract_keywords_empty_page)
qed

lemma posting_keywords: "keywords_of remdups posting_text = [''Rust'', ''Python'']"
  by code_simp

theorem extract_keywords_bounded_witness:
  "set_enumeration remdups \<and> posting_text \<noteq> [] \<and>
   (\<exists>ks. extract_keywords remdups unreachable None (Some posting_text) [] =
            (Returned (JDict [(''keywords'', JList (map JStr ks))]), []) \<and>
          length ks \<le> 20 \<and> distinct ks \<and>
          (\<forall>k\<in>set ks. 2 < length k \<and> upper_char (hd k) \<and> list_all letter_char k \<and>
                       sublist k posting_text)) \<and>
   extract_keywords remdups unreachable None (Some []) [] =
     (ErrorResponse (error_response ''No content provided for keyword extraction'' 400), [])"
proof -
  have en: "set_enumeration remdups" by (simp add: set_enumeration_def)
  have ne: "posting_text \<noteq> []" by (simp add: posting_text_def)
  have no: "\<not> truthy None \<and> \<not> truthy (Some [])" by simp
  from extract_keywords_bounded [OF en, of posting_text unreachable None "[]" "Some []"] ne no en
  show ?thesis by blast
qed

section \<open>Properties of the email validator\<close>

lemma matches_Nil: "matches [] prev s"
  by (simp add: matches_def)

lemma matches_Bol: "matches (Bol # its) prev s \<longleftrightarrow> prev = None \<and> matches its prev s"
  by (simp add: matches_def)

lemma matches_Eol:
  "matches (Eol # its) prev s \<longleftrightarrow> (s = [] \<or> s = [newline]) \<and> matches its prev s"
  by (simp add: matches_def)

lemma matches_Lit:
  "matches (Lit a # its) prev s \<longleftrightarrow> (\<exists>r. s = a # r \<and> matches its (Some a) r)"
  by (cases s) (auto simp: matches_def)

lemma matches_Plus1:
  "matches (Plus1 p # its) prev s \<longleftrightarrow>
     (\<exists>u r. s = u @ r \<and> u \<noteq> [] \<and> list_all p u \<and> matches its (Some (last u)) r)"
proof (induction s arbitrary: prev)
  case Nil
  then show ?case by (simp add: matches_def)
next
  case (Cons c cs)
  have step: "matches (Plus1 p # its) prev (c # cs) \<longleftrightarrow>
                p c \<and> (matches (Plus1 p # its) (Some c) cs \<or> matches its (Some c) cs)"
    by (auto simp: matches_def split: option.splits)
  show ?case
  proof
    assume "matches (Plus1 p # its) prev (c # cs)"
    with step have pc: "p c"
      and alt: "matches (Plus1 p # its) (Some c) cs \<or> matches its (Some c) cs"
      by blast+
    from alt show "\<exists>u r. c # cs = u @ r \<and> u \<noteq> [] \<and> list_all p u \<and> matches its (Some (last u)) r"
    proof
      assume "matches (Plus1 p # its) (Some c) cs"
      with Cons.IH obtain u r where
        ur: "cs = u @ r" "u \<noteq> []" "list_all p u" "matches its (Some (last u)) r"
        by blast
      with pc have "c # cs = (c # u) @ r \<and> c # u \<noteq> [] \<and> list_all p (c # u) \<and>
                    matches its (Some (last (c # u))) r"
        by simp
      then show ?thesis by blast
    next
      assume "matches its (Some c) cs"
      with pc have "c # cs = [c] @ cs \<and> [c] \<noteq> [] \<and> list_all p [c] \<and>
                    matches its (Some (last [c])) cs"
        by simp
      then show ?thesis by blast
    qed
  next
    assume "\<exists>u r. c # cs = u @ r \<and> u \<noteq> [] \<and> list_all p u \<and> matches its (Some (last u)) r"
    then obtain u r where
      ur: "c # cs = u @ r" "u \<noteq> []" "list_all p u" "matches its (Some (last u)) r"
      by blast
    from ur(1,2) obtain u' where u': "u = c # u'" "cs = u' @ r"
      by (cases u) auto
    from ur(3) u' have pc: "p c" and pu': "list_all p u'" by simp_all
    show "matches (Plus1 p # its) prev (c # cs)"
    proof (cases "u' = []")
      case True
      with ur(4) u' have "matches its (Some c) cs" by simp
      with pc step show ?thesis by blast
    next
      case False
      with ur(4) u' have "matches its (Some (last u')) r" by simp
      with False pu' u'(2) have "matches (Plus1 p # its) (Some c) cs"
        using Cons.IH by blast
      with pc step show ?thesis by blast
    qed
  qed
qed

lemma validate_email_matches:
  "validate_email s \<longleftrightarrow>
     matches [Bol, Plus1 word_dot_hyphen, Lit CHR ''@'', Plus1 word_dot_hyphen, Lit CHR ''.'',
              Plus1 word_char, Eol] None s"
  by (simp add: validate_email_def re_match_def email_pattern_def matches_def
           split: option.splits)

lemma validate_email_iff:
  "validate_email s \<longleftrightarrow>
     (\<exists>u v w t. s = u @ CHR ''@'' # v @ CHR ''.'' # w @ t \<and>
        u \<noteq> [] \<and> list_all word_dot_hyphen u \<and>
        v \<noteq> [] \<and> list_all word_dot_hyphen v \<and>
        w \<noteq> [] \<and> list_all word_char w \<and> (t = [] \<or> t = [newline]))"
  unfolding validate_email_matches matches_Bol matches_Plus1 matches_Lit matches_Eol
  by (simp add: matches_Nil) blast

lemma validate_email_shape:
  "validate_email s \<longleftrightarrow>
     simple_email_shape s \<or> (\<exists>s'. s = s' @ [newline] \<and> simple_email_shape s')"
proof
  assume "validate_email s"
  then obtain u v w t where
    h: "s = u @ CHR ''@'' # v @ CHR ''.'' # w @ t" "u \<noteq> []" "list_all word_dot_hyphen u"
       "v \<noteq> []" "list_all word_dot_hyphen v" "w \<noteq> []" "list_all word_char w"
       "t = [] \<or> t = [newline]"
    unfolding validate_email_iff by blast
  from h(2-7) have shape: "simple_email_shape (u @ CHR ''@'' # v @ CHR ''.'' # w)"
    unfolding simple_email_shape_def by blast
  from h(8) show "simple_email_shape s \<or> (\<exists>s'. s = s' @ [newline] \<and> simple_email_shape s')"
  proof
    assume "t = []"
    with h(1) shape show ?thesis by simp
  next
    assume "t = [newline]"
    with h(1) have "s = (u @ CHR ''@'' # v @ CHR ''.'' # w) @ [newline]" by simp
    with shape show ?thesis by blast
  qed
next
  assume "simple_email_shape s \<or> (\<exists>s'. s = s' @ [newline] \<and> simple_email_shape s')"
  then show "validate_email s"
  proof
    assume "simple_email_shape s"
    then obtain u v w where
      "s = u @ CHR ''@'' # v @ CHR ''.'' # w @ []" "u \<noteq> []" "list_all word_dot_hyphen u"
      "v \<noteq> []" "list_all word_dot_hyphen v" "w \<noteq> []" "list_all word_char w"
      unfolding simple_email_shape_def by auto
    then show ?thesis unfolding validate_email_iff by blast
  next
    assume "\<exists>s'. s = s' @ [newline] \<and> simple_email_shape s'"
    then obtain u v w where
      "s = u @ CHR ''@'' # v @ CHR ''.'' # w @ [newline]" "u \<noteq> []" "list_all word_dot_hyphen u"
      "v \<noteq> []" "list_all word_dot_hyphen v" "w \<noteq> []" "list_all word_char w"
      unfolding simple_email_shape_def by auto
    then show ?thesis unfolding validate_email_iff by blast
  qed
qed

lemma shape_ends_with_word:
  assumes "simple_email_shape s"
  shows "s \<noteq> [] \<and> word_char (last s)"
proof -
  from assms obtain u v w where
    h: "s = u @ CHR ''@'' # v @ CHR ''.'' # w" "w \<noteq> []" "list_all word_char w"
    unfolding simple_email_shape_def by blast
  from h(2,3) have "word_char (last w)" by (simp add: list_all_iff)
  with h(1,2) show ?thesis by simp
qed

lemma newline_not_word: "\<not> word_char newline"
  by (simp add: word_char_def newline_def)

text \<open>
  C3. The validator is a function from strings to truth values, and by
  \<open>validate_email_shape\<close> it accepts exactly the strings of the simple shape and those
  strings followed by one newline: \<^verbatim>\<open>$\<close> also matches just before a newline that ends the
  string. So the address \<^verbatim>\<open>a@b.co\<close> followed by a newline is accepted, and it does not
  have the shape the claim describes.
\<close>

theorem validate_email_accepts_trailing_newline:
  "validate_email (''a@b.co'' @ [newline]) \<and> \<not> simple_email_shape (''a@b.co'' @ [newline])"
proof
  show "validate_email (''a@b.co'' @ [newline])"
    by (simp add: validate_email_def re_match_def email_pattern_def word_dot_hyphen_def
          word_char_def newline_def)
  show "\<not> simple_email_shape (''a@b.co'' @ [newline])"
    using shape_ends_with_word [of "''a@b.co'' @ [newline]"] newline_not_word by auto
qed

section \<open>Properties of password hashing\<close>













end
